theory Spec2Isabelle
  imports Complex_Main "HOL-Library.Product_Lexorder" "HOL-Library.Word"
begin

section \<open>Python values, exceptions and the builtins the code calls\<close>

text \<open>
  Exceptions are values. A function of the source that can raise returns \<open>exn + 'a\<close>,
  with \<open>Inl\<close> the exception. \<open>OtherException\<close> stands for any exception raised by a
  collaborator outside the repository (the remote hub, a parser), with its message.
\<close>

datatype exn =
    KeyError string
  | ValueError
  | TypeError
  | AttributeError
  | FileNotFoundError
  | FileExistsError
  | NotADirectoryError
  | IsADirectoryError
  | OtherException string

text \<open>\<open>d[k]\<close> on a dict raises KeyError on a missing key; \<open>d.get(k, default)\<close> does not.\<close>

definition dict_getitem :: "(string \<times> 'v) list \<Rightarrow> string \<Rightarrow> exn + 'v" where
  "dict_getitem d k = (case map_of d k of None \<Rightarrow> Inl (KeyError k) | Some v \<Rightarrow> Inr v)"

definition dict_get :: "(string \<times> 'v) list \<Rightarrow> string \<Rightarrow> 'v \<Rightarrow> 'v" where
  "dict_get d k dflt = (case map_of d k of None \<Rightarrow> dflt | Some v \<Rightarrow> v)"

text \<open>
  Python numbers as prices: an \<open>int\<close> is unbounded, a \<open>float\<close> is a finite value, an
  infinity or NaN. Signed zeros and NaN payloads are not told apart: no comparison does.
\<close>

datatype py_float = Finite rat | PosInf | NegInf | NaN

datatype py_num = PyInt int | PyFloat py_float

fun is_nan :: "py_num \<Rightarrow> bool" where
  "is_nan (PyFloat NaN) = True"
| "is_nan n = False"

text \<open>
  Where a number that is not NaN stands in the order of the extended number line.
  Python compares an \<open>int\<close> with a \<open>float\<close> by value, exactly.
\<close>

fun num_key :: "py_num \<Rightarrow> int \<times> rat" where
  "num_key (PyInt i) = (0, of_int i)"
| "num_key (PyFloat (Finite r)) = (0, r)"
| "num_key (PyFloat PosInf) = (1, 0)"
| "num_key (PyFloat NegInf) = (-1, 0)"
| "num_key (PyFloat NaN) = (0, 0)"

text \<open>\<open>a > b\<close> and \<open>a >= b\<close>: every comparison with a NaN is false.\<close>

definition py_gt :: "py_num \<Rightarrow> py_num \<Rightarrow> bool" where
  "py_gt a b \<longleftrightarrow> \<not> is_nan a \<and> \<not> is_nan b \<and> num_key b < num_key a"

definition py_ge :: "py_num \<Rightarrow> py_num \<Rightarrow> bool" where
  "py_ge a b \<longleftrightarrow> \<not> is_nan a \<and> \<not> is_nan b \<and> num_key b \<le> num_key a"

text \<open>
  The builtin \<open>max\<close> on a list: ValueError on the empty list, otherwise a left-to-right
  scan that replaces the running maximum by an item only when \<open>item > maximum\<close> holds.
\<close>

fun py_max :: "py_num list \<Rightarrow> exn + py_num" where
  "py_max [] = Inl ValueError"
| "py_max (x # xs) = Inr (foldl (\<lambda>m y. if py_gt y m then y else m) x xs)"

text \<open>
  \<open>s.replace(old, new)\<close>: every non-overlapping occurrence of \<open>old\<close>, scanning from the
  left; an empty \<open>old\<close> matches before every character and at the end.
\<close>

fun py_replace :: "string \<Rightarrow> string \<Rightarrow> string \<Rightarrow> string" where
  "py_replace [] old new = (if old = [] then new else [])"
| "py_replace (c # cs) old new =
     (if old = [] then new @ c # py_replace cs old new
      else if take (length old) (c # cs) = old
        then new @ py_replace (drop (length old) (c # cs)) old new
        else c # py_replace cs old new)"

text \<open>A parameter with a default value: \<open>None\<close> is the call that omits it.\<close>

definition arg_or_default :: "'a \<Rightarrow> 'a option \<Rightarrow> 'a" where
  "arg_or_default dflt arg = (case arg of None \<Rightarrow> dflt | Some a \<Rightarrow> a)"

section \<open>labs/lab0: find_max_price\<close>

text \<open>
  The list is a mutable argument, so the function returns it next to its result: the
  second component is the list as the call leaves it.
\<close>

definition find_max_price :: "py_num list \<Rightarrow> (exn + py_num) \<times> py_num list" where
  "find_max_price prices = (py_max prices, prices)"

section \<open>utils/dataset\_config: the registry\<close>

datatype py_value = Str string | StrList "string list"

type_synonym config = "(string \<times> py_value) list"

definition tmdb_config :: config where
  "tmdb_config =
    [(''name'', Str ''TMDB 5000 Movies''),
     (''path'', Str ''data/processed/tmdb_embedded.parquet''),
     (''text_col'', Str ''overview''),
     (''title_col'', Str ''title''),
     (''image_col'', Str ''local_poster_path''),
     (''image_embedding_col'', Str ''image_embedding''),
     (''text_embedding_col'', Str ''embedding''),
     (''label_cols'', StrList [''genres'']),
     (''metadata_cols'',
        StrList [''title'', ''overview'', ''genres'', ''release_date'', ''vote_average'']),
     (''visualization_col'', Str ''genres''),
     (''item_name'', Str ''Movie'')]"

definition airbnb_config :: config where
  "airbnb_config =
    [(''name'', Str ''NYC Airbnb Listings''),
     (''path'', Str ''data/processed/airbnb_embedded.parquet''),
     (''text_col'', Str ''description''),
     (''title_col'', Str ''name''),
     (''image_col'', Str ''local_picture_path''),
     (''image_embedding_col'', Str ''image_embedding''),
     (''text_embedding_col'', Str ''embedding''),
     (''label_cols'',
        StrList [''neighbourhood'', ''neighbourhood_group'', ''property_type'', ''room_type'']),
     (''metadata_cols'',
        StrList [''name'', ''description'', ''neighbourhood'', ''price'',
                 ''review_scores_rating'']),
     (''visualization_col'', Str ''neighbourhood''),
     (''item_name'', Str ''Listing'')]"

definition DATASETS :: "(string \<times> config) list" where
  "DATASETS = [(''tmdb'', tmdb_config), (''airbnb'', airbnb_config)]"

text \<open>
  \<open>DATASETS.get(dataset_name, DATASETS["tmdb"])\<close>: the default argument is evaluated
  first, by indexing, and would raise KeyError if the registry had no \<open>tmdb\<close> entry.
\<close>

definition get_dataset_config :: "string \<Rightarrow> exn + config" where
  "get_dataset_config dataset_name =
     (case dict_getitem DATASETS ''tmdb'' of
        Inl e \<Rightarrow> Inl e
      | Inr dflt \<Rightarrow> Inr (dict_get DATASETS dataset_name dflt))"

text \<open>
  The shape of a configuration record in the specification's data model: nine fields
  holding a string and two holding a sequence of column names.
\<close>

definition config_str_fields :: "string list" where
  "config_str_fields =
     [''name'', ''path'', ''text_col'', ''title_col'', ''image_col'',
      ''image_embedding_col'', ''text_embedding_col'', ''visualization_col'', ''item_name'']"

definition config_list_fields :: "string list" where
  "config_list_fields = [''label_cols'', ''metadata_cols'']"

definition is_str :: "py_value option \<Rightarrow> bool" where
  "is_str v = (case v of Some (Str s) \<Rightarrow> True | _ \<Rightarrow> False)"

definition is_str_list :: "py_value option \<Rightarrow> bool" where
  "is_str_list v = (case v of Some (StrList l) \<Rightarrow> True | _ \<Rightarrow> False)"

definition fully_populated :: "config \<Rightarrow> bool" where
  "fully_populated c \<longleftrightarrow>
     list_all (\<lambda>k. is_str (map_of c k)) config_str_fields \<and>
     list_all (\<lambda>k. is_str_list (map_of c k)) config_list_fields"

text \<open>\<open>config["path"]\<close>, used as a string; \<open>e\<close> is what the use raises on a non-string.\<close>

definition config_path :: "exn \<Rightarrow> config \<Rightarrow> exn + string" where
  "config_path e config =
     (case dict_getitem config ''path'' of
        Inl k \<Rightarrow> Inl k
      | Inr (Str s) \<Rightarrow> Inr s
      | Inr (StrList l) \<Rightarrow> Inl e)"

section \<open>utils/data\_loader: split path\<close>

definition get_splits_path :: "string \<Rightarrow> exn + string" where
  "get_splits_path dataset_name =
     (case get_dataset_config dataset_name of
        Inl e \<Rightarrow> Inl e
      | Inr config \<Rightarrow>
          (case config_path AttributeError config of
             Inl e \<Rightarrow> Inl e
           | Inr base_path \<Rightarrow> Inr (py_replace base_path ''.parquet'' ''_splits.csv'')))"

section \<open>Tables\<close>

text \<open>
  A table is its columns in order, each a label and the cells of that column. Cells are
  opaque Python objects; no function of the repository inspects them. A float cell is
  its 64-bit pattern, so two float cells are equal exactly when they agree bit for bit;
  an embedding vector is a list cell of float cells.
\<close>

datatype cell =
  IntCell int | StrCell string | FloatCell "64 word" | ListCell "cell list" | NoneCell

type_synonym dataframe = "(string \<times> cell list) list"

definition df_columns :: "dataframe \<Rightarrow> string list" where
  "df_columns df = map fst df"

definition df_nrows :: "dataframe \<Rightarrow> nat" where
  "df_nrows df = (case df of [] \<Rightarrow> 0 | (label, col) # rest \<Rightarrow> length col)"

text \<open>The invariant of a table: labels are unique and every column has one cell per row.\<close>

definition wf_dataframe :: "dataframe \<Rightarrow> bool" where
  "wf_dataframe df \<longleftrightarrow>
     distinct (df_columns df) \<and> list_all (\<lambda>c. length (snd c) = df_nrows df) df"

text \<open>
  \<open>df[[k1, ..., kn]]\<close>: for each key in turn, the columns carrying that label; KeyError
  when a key labels no column.
\<close>

fun df_getitem :: "dataframe \<Rightarrow> string list \<Rightarrow> exn + dataframe" where
  "df_getitem df [] = Inr []"
| "df_getitem df (k # ks) =
     (case filter (\<lambda>c. fst c = k) df of
        [] \<Rightarrow> Inl (KeyError k)
      | c # cs \<Rightarrow>
          (case df_getitem df ks of
             Inl e \<Rightarrow> Inl e
           | Inr rest \<Rightarrow> Inr ((c # cs) @ rest)))"

section \<open>The world outside the process\<close>

text \<open>
  The state the store reads and writes: regular files with their bytes, directories,
  the lines printed, the errors handed to the UI (\<open>st.error\<close>) and the requests sent to
  the remote hub. Permissions, links and disk space are not modelled: an operation fails
  only for a reason visible in this state.
\<close>

record world =
  files :: "string \<rightharpoonup> string"
  dirs :: "string set"
  stdout :: "string list"
  st_errors :: "string list"
  network :: "string list"

text \<open>
  The collaborators outside the repository, as parameters: the two file formats of
  pandas (parsers may raise, the Parquet writer may reject a table), the outcome of
  pulling a dataset from the hub and converting it to a table, and \<open>str\<close> of an exception.
\<close>

record env =
  pd_read_csv :: "string \<Rightarrow> exn + dataframe"
  pd_to_csv :: "dataframe \<Rightarrow> string"
  pd_read_parquet :: "string \<Rightarrow> exn + dataframe"
  pd_to_parquet :: "dataframe \<Rightarrow> exn + string"
  load_dataset :: "string \<Rightarrow> exn + dataframe"
  exn_str :: "exn \<Rightarrow> string"

definition py_print :: "string \<Rightarrow> world \<Rightarrow> world" where
  "py_print s w = w\<lparr>stdout := stdout w @ [s]\<rparr>"

definition st_error :: "string \<Rightarrow> world \<Rightarrow> world" where
  "st_error s w = w\<lparr>st_errors := st_errors w @ [s]\<rparr>"

text \<open>The check mark that starts the success messages, in UTF-8.\<close>

definition check_mark :: string where
  "check_mark = [CHR 0xE2, CHR 0x9C, CHR 0x93]"

subsection \<open>os.path and os\<close>

text \<open>
  \<open>os.path.dirname\<close> (POSIX): everything up to the last slash, with trailing slashes
  removed unless the head consists of slashes only.
\<close>

definition os_path_dirname :: "string \<Rightarrow> string" where
  "os_path_dirname p =
     (let head = rev (dropWhile (\<lambda>c. c \<noteq> CHR ''/'') (rev p))
      in if head \<noteq> [] \<and> head \<noteq> replicate (length head) (CHR ''/'')
         then rev (dropWhile (\<lambda>c. c = CHR ''/'') (rev head))
         else head)"

definition os_path_exists :: "world \<Rightarrow> string \<Rightarrow> bool" where
  "os_path_exists w p \<longleftrightarrow> p \<in> dirs w \<or> files w p \<noteq> None"

text \<open>
  The directories \<open>os.makedirs\<close> visits for a slash-separated path, outermost first:
  \<open>data/processed\<close> gives \<open>data\<close>, then \<open>data/processed\<close>.
\<close>

fun path_prefixes_from :: "string \<Rightarrow> string \<Rightarrow> string list" where
  "path_prefixes_from acc [] = (if acc = [] then [] else [acc])"
| "path_prefixes_from acc (c # cs) =
     (if c = CHR ''/'' \<and> acc \<noteq> [] \<and> last acc \<noteq> CHR ''/''
      then acc # path_prefixes_from (acc @ [c]) cs
      else path_prefixes_from (acc @ [c]) cs)"

definition path_prefixes :: "string \<Rightarrow> string list" where
  "path_prefixes p = path_prefixes_from [] p"

text \<open>
  \<open>os.makedirs(p, exist_ok=True)\<close>: an existing directory is kept, a missing one is
  created, and a regular file in the way raises (FileExistsError at the last component,
  NotADirectoryError before it). Directories created before the failure stay.
\<close>

fun mkdir_each :: "string list \<Rightarrow> world \<Rightarrow> (exn + unit) \<times> world" where
  "mkdir_each [] w = (Inr (), w)"
| "mkdir_each (d # ds) w =
     (if d \<in> dirs w then mkdir_each ds w
      else if files w d \<noteq> None
        then (Inl (if ds = [] then FileExistsError else NotADirectoryError), w)
        else mkdir_each ds (w\<lparr>dirs := insert d (dirs w)\<rparr>))"

definition os_makedirs :: "string \<Rightarrow> world \<Rightarrow> (exn + unit) \<times> world" where
  "os_makedirs p w =
     (if p = [] then (Inl FileNotFoundError, w) else mkdir_each (path_prefixes p) w)"

text \<open>Opening a path for writing, and for reading.\<close>

definition write_file :: "string \<Rightarrow> string \<Rightarrow> world \<Rightarrow> (exn + unit) \<times> world" where
  "write_file p bytes w =
     (if p \<in> dirs w then (Inl IsADirectoryError, w)
      else if os_path_dirname p \<noteq> [] \<and> os_path_dirname p \<notin> dirs w
        then (Inl FileNotFoundError, w)
        else (Inr (), w\<lparr>files := (files w)(p \<mapsto> bytes)\<rparr>))"

definition read_file :: "string \<Rightarrow> world \<Rightarrow> exn + string" where
  "read_file p w =
     (if p \<in> dirs w then Inl IsADirectoryError
      else case files w p of None \<Rightarrow> Inl FileNotFoundError | Some bytes \<Rightarrow> Inr bytes)"

subsection \<open>pandas on paths\<close>

definition read_csv :: "env \<Rightarrow> string \<Rightarrow> world \<Rightarrow> exn + dataframe" where
  "read_csv env path w =
     (case read_file path w of Inl e \<Rightarrow> Inl e | Inr bytes \<Rightarrow> pd_read_csv env bytes)"

definition read_parquet :: "env \<Rightarrow> string \<Rightarrow> world \<Rightarrow> exn + dataframe" where
  "read_parquet env path w =
     (case read_file path w of Inl e \<Rightarrow> Inl e | Inr bytes \<Rightarrow> pd_read_parquet env bytes)"

definition to_csv :: "env \<Rightarrow> dataframe \<Rightarrow> string \<Rightarrow> world \<Rightarrow> (exn + unit) \<times> world" where
  "to_csv env df path w = write_file path (pd_to_csv env df) w"

definition to_parquet :: "env \<Rightarrow> dataframe \<Rightarrow> string \<Rightarrow> world \<Rightarrow> (exn + unit) \<times> world" where
  "to_parquet env df path w =
     (case pd_to_parquet env df of
        Inl e \<Rightarrow> (Inl e, w)
      | Inr bytes \<Rightarrow> write_file path bytes w)"

section \<open>utils/data\_loader: the store\<close>

definition RAW_DATA_PATH :: string where
  "RAW_DATA_PATH = ''data/raw/tmdb_5000_movies.csv''"

definition HUB_DATASET :: string where
  "HUB_DATASET = ''AiresPucrs/tmdb-5000-movies''"

text \<open>The body of the \<open>try\<close> block of \<open>load_tmdb_raw\<close>.\<close>

definition load_tmdb_raw_try :: "env \<Rightarrow> world \<Rightarrow> (exn + dataframe) \<times> world" where
  "load_tmdb_raw_try env w =
     (let w1 = w\<lparr>network := network w @ [HUB_DATASET]\<rparr> in
      case load_dataset env HUB_DATASET of
        Inl e \<Rightarrow> (Inl e, w1)
      | Inr df \<Rightarrow>
          (case os_makedirs (os_path_dirname RAW_DATA_PATH) w1 of
             (Inl e, w2) \<Rightarrow> (Inl e, w2)
           | (Inr u, w2) \<Rightarrow>
               (case to_csv env df RAW_DATA_PATH w2 of
                  (Inl e, w3) \<Rightarrow> (Inl e, w3)
                | (Inr u', w3) \<Rightarrow>
                    (Inr df,
                     py_print (check_mark @ '' Dataset downloaded and cached to '' @ RAW_DATA_PATH)
                       w3))))"

definition load_tmdb_raw :: "env \<Rightarrow> world \<Rightarrow> (exn + dataframe) \<times> world" where
  "load_tmdb_raw env w =
     (if os_path_exists w RAW_DATA_PATH then (read_csv env RAW_DATA_PATH w, w)
      else
        let w1 = py_print ''Raw data not found locally.'' w;
            w2 = py_print ''Downloading TMDB 5000 dataset from Hugging Face...'' w1
        in case load_tmdb_raw_try env w2 of
             (Inr df, w3) \<Rightarrow> (Inr df, w3)
           | (Inl e, w3) \<Rightarrow>
               (Inr [],
                py_print (''Error details: '' @ exn_str env e)
                  (st_error (''Failed to download dataset: '' @ exn_str env e) w3)))"

definition save_processed_data ::
  "env \<Rightarrow> dataframe \<Rightarrow> string option \<Rightarrow> world \<Rightarrow> (exn + unit) \<times> world" where
  "save_processed_data env df dataset_name_arg w =
     (let dataset_name = arg_or_default ''tmdb'' dataset_name_arg in
      case get_dataset_config dataset_name of
        Inl e \<Rightarrow> (Inl e, w)
      | Inr config \<Rightarrow>
          (case config_path TypeError config of
             Inl e \<Rightarrow> (Inl e, w)
           | Inr path \<Rightarrow>
               (case os_makedirs (os_path_dirname path) w of
                  (Inl e, w1) \<Rightarrow> (Inl e, w1)
                | (Inr u, w1) \<Rightarrow>
                    (case to_parquet env df path w1 of
                       (Inl e, w2) \<Rightarrow> (Inl e, w2)
                     | (Inr u', w2) \<Rightarrow>
                         (Inr (),
                          py_print (check_mark @ '' Processed data saved to '' @ path) w2)))))"

text \<open>The result \<open>None\<close> is Python's \<open>None\<close>: the table has not been processed yet.\<close>

definition load_processed_data ::
  "env \<Rightarrow> string option \<Rightarrow> world \<Rightarrow> exn + dataframe option" where
  "load_processed_data env dataset_name_arg w =
     (let dataset_name = arg_or_default ''tmdb'' dataset_name_arg in
      case get_dataset_config dataset_name of
        Inl e \<Rightarrow> Inl e
      | Inr config \<Rightarrow>
          (case config_path TypeError config of
             Inl e \<Rightarrow> Inl e
           | Inr path \<Rightarrow>
               if os_path_exists w path
               then (case read_parquet env path w of
                       Inl e \<Rightarrow> Inl e
                     | Inr df \<Rightarrow> Inr (Some df))
               else Inr None))"

definition SPLITS_ERROR :: string where
  "SPLITS_ERROR =
     ''Error: DataFrame must contain 'id' and 'split' columns to save splits.''"

definition save_splits ::
  "env \<Rightarrow> dataframe \<Rightarrow> string option \<Rightarrow> world \<Rightarrow> (exn + unit) \<times> world" where
  "save_splits env df dataset_name_arg w =
     (let dataset_name = arg_or_default ''tmdb'' dataset_name_arg in
      case get_splits_path dataset_name of
        Inl e \<Rightarrow> (Inl e, w)
      | Inr path \<Rightarrow>
          (case os_makedirs (os_path_dirname path) w of
             (Inl e, w1) \<Rightarrow> (Inl e, w1)
           | (Inr u, w1) \<Rightarrow>
               if ''id'' \<in> set (df_columns df) \<and> ''split'' \<in> set (df_columns df)
               then (case df_getitem df [''id'', ''split''] of
                       Inl e \<Rightarrow> (Inl e, w1)
                     | Inr proj \<Rightarrow>
                         (case to_csv env proj path w1 of
                            (Inl e, w2) \<Rightarrow> (Inl e, w2)
                          | (Inr u', w2) \<Rightarrow>
                              (Inr (),
                               py_print (check_mark @ '' Split assignments saved to '' @ path)
                                 w2)))
               else (Inr (), py_print SPLITS_ERROR w1)))"

definition load_splits ::
  "env \<Rightarrow> string option \<Rightarrow> world \<Rightarrow> exn + dataframe option" where
  "load_splits env dataset_name_arg w =
     (let dataset_name = arg_or_default ''tmdb'' dataset_name_arg in
      case get_splits_path dataset_name of
        Inl e \<Rightarrow> Inl e
      | Inr path \<Rightarrow>
          if os_path_exists w path
          then (case read_csv env path w of
                  Inl e \<Rightarrow> Inl e
                | Inr df \<Rightarrow> Inr (Some df))
          else Inr None)"

text \<open>
  What \<open>os.makedirs(d, exist_ok=True)\<close> needs from the file system: at each directory on
  the way to \<open>d\<close> there is a directory already or nothing at all.
\<close>

definition can_makedirs :: "world \<Rightarrow> string \<Rightarrow> bool" where
  "can_makedirs w d \<longleftrightarrow>
     d \<noteq> [] \<and> list_all (\<lambda>a. a \<in> dirs w \<or> files w a = None) (path_prefixes d)"

subsection \<open>A concrete world for the examples\<close>

definition demo_env :: env where
  "demo_env =
     \<lparr>pd_read_csv = (\<lambda>bytes. if bytes = [] then Inl (OtherException ''EmptyDataError'')
                              else Inr [(bytes, [])]),
      pd_to_csv = (\<lambda>df. concat (map (\<lambda>c. fst c @ '','') df)),
      pd_read_parquet = (\<lambda>bytes. if bytes = [] then Inl (OtherException ''ArrowInvalid'')
                                  else Inr [(bytes, [])]),
      pd_to_parquet = (\<lambda>df. Inr (concat (map (\<lambda>c. fst c @ '';'') df))),
      load_dataset = (\<lambda>name. Inl (OtherException ''ConnectionError'')),
      exn_str = (\<lambda>e. case e of OtherException m \<Rightarrow> m | _ \<Rightarrow> ''error'')\<rparr>"

definition empty_world :: world where
  "empty_world = \<lparr>files = Map.empty, dirs = {}, stdout = [], st_errors = [], network = []\<rparr>"

definition cached_world :: world where
  "cached_world =
     \<lparr>files = [''data/processed/tmdb_embedded.parquet'' \<mapsto> ''x'',
               ''data/processed/tmdb_embedded_splits.csv'' \<mapsto> ''y'',
               ''data/raw/tmdb_5000_movies.csv'' \<mapsto> ''z''],
      dirs = {''data'', ''data/processed'', ''data/raw''},
      stdout = [], st_errors = [], network = []\<rparr>"

text \<open>A world whose raw file is there and holds no bytes.\<close>

definition empty_cache_world :: world where
  "empty_cache_world =
     \<lparr>files = [''data/raw/tmdb_5000_movies.csv'' \<mapsto> []],
      dirs = {''data'', ''data/raw''},
      stdout = [], st_errors = [], network = []\<rparr>"







section \<open>Properties of the registry\<close>

lemma get_dataset_config_cases:
  "get_dataset_config n = Inr (if n = ''airbnb'' then airbnb_config else tmdb_config)"
  by (simp add: get_dataset_config_def dict_getitem_def dict_get_def DATASETS_def)

lemma fully_populated_tmdb: "fully_populated tmdb_config"
  by (simp add: fully_populated_def tmdb_config_def config_str_fields_def
      config_list_fields_def is_str_def is_str_list_def)

lemma fully_populated_airbnb: "fully_populated airbnb_config"
  by (simp add: fully_populated_def airbnb_config_def config_str_fields_def
      config_list_fields_def is_str_def is_str_list_def)

lemma registry_keys: "map_of DATASETS n = None \<longleftrightarrow> n \<noteq> ''tmdb'' \<and> n \<noteq> ''airbnb''"
  by (simp add: DATASETS_def)

text \<open>
  C1. For every dataset identifier, \<open>get_dataset_config\<close> returns (it does not raise) a
  configuration record with every field of the data model present and of the right kind;
  for an identifier that the registry does not hold, the record is the one stored under
  \<open>tmdb\<close>.
\<close>

theorem get_dataset_config_total:
  "\<exists>c. get_dataset_config n = Inr c \<and> fully_populated c \<and>
       (map_of DATASETS n = None \<longrightarrow> dict_getitem DATASETS ''tmdb'' = Inr c)"
proof (cases "n = ''airbnb''")
  case True
  then show ?thesis
    by (simp add: get_dataset_config_cases fully_populated_airbnb registry_keys)
next
  case False
  then show ?thesis
    by (simp add: get_dataset_config_cases fully_populated_tmdb dict_getitem_def DATASETS_def)
qed

theorem get_dataset_config_total_witness:
  "map_of DATASETS ''books'' = None \<and>
   get_dataset_config ''books'' = Inr tmdb_config \<and>
   get_dataset_config '''' = Inr tmdb_config \<and>
   fully_populated tmdb_config"
  using get_dataset_config_total [of "''books''"] get_dataset_config_total [of "''''"]
  by (simp add: DATASETS_def dict_getitem_def)

section \<open>Properties of find\_max\_price\<close>

lemma scan_max_mem: "foldl (\<lambda>m y. if py_gt y m then y else m) x xs \<in> set (x # xs)"
  by (induction xs arbitrary: x) auto

lemma scan_nan_start:
  "is_nan x \<Longrightarrow> foldl (\<lambda>m y. if py_gt y m then y else m) x xs = x"
  by (induction xs) (simp_all add: py_gt_def)

lemma scan_max_key:
  assumes "\<not> is_nan x"
  shows "\<not> is_nan (foldl (\<lambda>m y. if py_gt y m then y else m) x xs) \<and>
         num_key x \<le> num_key (foldl (\<lambda>m y. if py_gt y m then y else m) x xs) \<and>
         list_all (\<lambda>p. is_nan p \<or>
                     num_key p \<le> num_key (foldl (\<lambda>m y. if py_gt y m then y else m) x xs)) xs"
  using assms
proof (induction xs arbitrary: x)
  case Nil
  then show ?case by simp
next
  case (Cons a xs)
  let ?scan = "foldl (\<lambda>m y. if py_gt y m then y else m)"
  show ?case
  proof (cases "py_gt a x")
    case True
    then have a: "\<not> is_nan a" and less: "num_key x < num_key a"
      by (simp_all add: py_gt_def)
    from Cons.IH [OF a] have ih: "\<not> is_nan (?scan a xs)"
      "num_key a \<le> num_key (?scan a xs)"
      "list_all (\<lambda>p. is_nan p \<or> num_key p \<le> num_key (?scan a xs)) xs"
      by simp_all
    from less ih(2) have "num_key x \<le> num_key (?scan a xs)" by simp
    with True ih show ?thesis by simp
  next
    case False
    with Cons.prems have le: "is_nan a \<or> num_key a \<le> num_key x"
      by (auto simp add: py_gt_def)
    from Cons.IH [OF Cons.prems] have ih: "\<not> is_nan (?scan x xs)"
      "num_key x \<le> num_key (?scan x xs)"
      "list_all (\<lambda>p. is_nan p \<or> num_key p \<le> num_key (?scan x xs)) xs"
      by simp_all
    from le ih(2) have "is_nan a \<or> num_key a \<le> num_key (?scan x xs)" by auto
    with False ih show ?thesis by simp
  qed
qed

lemma scan_not_exceeded:
  "p \<in> set (x # xs) \<Longrightarrow> \<not> py_gt p (foldl (\<lambda>m y. if py_gt y m then y else m) x xs)"
proof (cases "is_nan x")
  case True
  show ?thesis
    unfolding scan_nan_start [OF True] using True by (simp add: py_gt_def)
next
  case False
  assume "p \<in> set (x # xs)"
  with scan_max_key [OF False, of xs] show ?thesis
    by (auto simp add: py_gt_def list_all_iff)
qed

text \<open>
  C8, as the code has it. For every non-empty list of prices, \<open>find_max_price\<close> returns a
  value that occurs in the list, that no price of the list is greater than, and leaves
  the list as it was; when no price is a float NaN, the value returned is greater than
  or equal to every price of the list.
\<close>

theorem find_max_price_correct:
  assumes "prices \<noteq> []"
  shows "\<exists>m. find_max_price prices = (Inr m, prices) \<and> m \<in> set prices \<and>
             (\<forall>p \<in> set prices. \<not> py_gt p m) \<and>
             (list_all (\<lambda>p. \<not> is_nan p) prices \<longrightarrow> (\<forall>p \<in> set prices. py_ge m p))"
proof (cases prices)
  case Nil
  with assms show ?thesis by simp
next
  case (Cons x xs)
  let ?m = "foldl (\<lambda>m y. if py_gt y m then y else m) x xs"
  have "find_max_price prices = (Inr ?m, prices)"
    using Cons by (simp add: find_max_price_def)
  moreover have "?m \<in> set prices"
    using Cons scan_max_mem [of x xs] by simp
  moreover have "\<forall>p \<in> set prices. \<not> py_gt p ?m"
    using Cons scan_not_exceeded [of _ x xs] by simp
  moreover have "\<forall>p \<in> set prices. py_ge ?m p" if "list_all (\<lambda>p. \<not> is_nan p) prices"
  proof -
    from that Cons have x: "\<not> is_nan x" by simp
    from scan_max_key [OF x, of xs] that Cons show ?thesis
      by (auto simp add: py_ge_def list_all_iff)
  qed
  ultimately show ?thesis by blast
qed

theorem find_max_price_correct_witness:
  "[PyInt 3, PyFloat (Finite (19 / 2)), PyInt 4] \<noteq> [] \<and>
   list_all (\<lambda>p. \<not> is_nan p) [PyInt 3, PyFloat (Finite (19 / 2)), PyInt 4] \<and>
   find_max_price [PyInt 3, PyFloat (Finite (19 / 2)), PyInt 4] =
     (Inr (PyFloat (Finite (19 / 2))), [PyInt 3, PyFloat (Finite (19 / 2)), PyInt 4]) \<and>
   list_all (py_ge (PyFloat (Finite (19 / 2))))
     [PyInt 3, PyFloat (Finite (19 / 2)), PyInt 4] \<and>
   list_all (\<lambda>p. \<not> py_gt p (PyFloat (Finite (19 / 2))))
     [PyInt 3, PyFloat (Finite (19 / 2)), PyInt 4]"
  using find_max_price_correct [of "[PyInt 3, PyFloat (Finite (19 / 2)), PyInt 4]"]
  by (simp add: find_max_price_def py_gt_def py_ge_def)

text \<open>
  C8 as stated fails on a list with a NaN. \<open>max([nan, 5.0])\<close> is the NaN, which is not
  greater than or equal to \<open>5.0\<close>; \<open>max([5.0, nan])\<close> is \<open>5.0\<close>, which is not greater than
  or equal to the NaN.
\<close>

theorem find_max_price_nan_counterexample:
  "find_max_price [PyFloat NaN, PyFloat (Finite 5)] =
     (Inr (PyFloat NaN), [PyFloat NaN, PyFloat (Finite 5)]) \<and>
   \<not> py_ge (PyFloat NaN) (PyFloat (Finite 5)) \<and>
   find_max_price [PyFloat (Finite 5), PyFloat NaN] =
     (Inr (PyFloat (Finite 5)), [PyFloat (Finite 5), PyFloat NaN]) \<and>
   \<not> py_ge (PyFloat (Finite 5)) (PyFloat NaN)"
  by (simp add: find_max_price_def py_gt_def py_ge_def)

section \<open>Properties of the split path\<close>

lemma get_splits_path_cases:
  "get_splits_path n =
     Inr (if n = ''airbnb'' then ''data/processed/airbnb_embedded_splits.csv''
          else ''data/processed/tmdb_embedded_splits.csv'')"
  by (simp add: get_splits_path_def get_dataset_config_cases config_path_def
      dict_getitem_def tmdb_config_def airbnb_config_def)

text \<open>
  C2. The source comment gives \<open>data/processed/tmdb_splits.csv\<close> as the split path of
  \<open>tmdb\<close>. The code replaces the substring \<open>.parquet\<close> only, so the path it returns
  keeps \<open>_embedded\<close>: it is \<open>data/processed/tmdb_embedded_splits.csv\<close>.
\<close>

theorem get_splits_path_tmdb:
  "get_splits_path ''tmdb'' = Inr ''data/processed/tmdb_embedded_splits.csv'' \<and>
   get_splits_path ''tmdb'' \<noteq> Inr ''data/processed/tmdb_splits.csv''"
  by (simp add: get_splits_path_cases)

section \<open>Properties of the store\<close>

lemma config_path_cases:
  "config_path e (if n = ''airbnb'' then airbnb_config else tmdb_config) =
     Inr (if n = ''airbnb'' then ''data/processed/airbnb_embedded.parquet''
          else ''data/processed/tmdb_embedded.parquet'')"
  by (simp add: config_path_def dict_getitem_def tmdb_config_def airbnb_config_def)


lemma dirname_splits:
  "os_path_dirname (if n = ''airbnb'' then ''data/processed/airbnb_embedded_splits.csv''
          else ''data/processed/tmdb_embedded_splits.csv'') = ''data/processed''"
  by (simp add: os_path_dirname_def)

lemma dirname_raw: "os_path_dirname RAW_DATA_PATH = ''data/raw''"
  by (simp add: os_path_dirname_def RAW_DATA_PATH_def)

lemma prefixes_processed: "path_prefixes ''data/processed'' = [''data'', ''data/processed'']"
  by (simp add: path_prefixes_def)

lemma prefixes_raw: "path_prefixes ''data/raw'' = [''data'', ''data/raw'']"
  by (simp add: path_prefixes_def)

lemma mkdir_each_ok:
  "list_all (\<lambda>a. a \<in> dirs w \<or> files w a = None) ds \<Longrightarrow>
   mkdir_each ds w = (Inr (), w\<lparr>dirs := dirs w \<union> set ds\<rparr>)"
proof (induction ds arbitrary: w)
  case Nil
  show ?case by simp
next
  case (Cons d ds)
  show ?case
  proof (cases "d \<in> dirs w")
    case True
    then have "insert d (dirs w \<union> set ds) = dirs w \<union> set ds" by auto
    with True Cons show ?thesis by simp
  next
    case False
    with Cons.prems have none: "files w d = None" by simp
    let ?w = "w\<lparr>dirs := insert d (dirs w)\<rparr>"
    from Cons.prems have "list_all (\<lambda>a. a \<in> dirs ?w \<or> files ?w a = None) ds"
      by (auto simp: list_all_iff)
    from Cons.IH [OF this] False none show ?thesis by simp
  qed
qed

lemma mkdir_each_files: "files (snd (mkdir_each ds w)) = files w"
  by (induction ds arbitrary: w) auto

lemma os_makedirs_files: "files (snd (os_makedirs d w)) = files w"
  by (simp add: os_makedirs_def mkdir_each_files)

lemma os_makedirs_ok:
  "can_makedirs w d \<Longrightarrow>
   os_makedirs d w = (Inr (), w\<lparr>dirs := dirs w \<union> set (path_prefixes d)\<rparr>)"
  by (simp add: can_makedirs_def os_makedirs_def mkdir_each_ok)

lemma filter_label:
  "distinct (map fst df) \<Longrightarrow> (k, v) \<in> set df \<Longrightarrow> filter (\<lambda>c. fst c = k) df = [(k, v)]"
proof (induction df)
  case Nil
  then show ?case by simp
next
  case (Cons c df)
  show ?case
  proof (cases "c = (k, v)")
    case True
    with Cons.prems have "k \<notin> fst ` set df" by simp
    then have "filter (\<lambda>c. fst c = k) df = []"
      by (auto simp: filter_empty_conv)
    with True show ?thesis by simp
  next
    case False
    with Cons.prems have in_df: "(k, v) \<in> set df" by simp
    with Cons.prems have "fst c \<noteq> k" by (auto simp: image_iff)
    with Cons in_df show ?thesis by simp
  qed
qed


lemma save_splits_files_unchanged:
  assumes "\<not> (''id'' \<in> set (df_columns df) \<and> ''split'' \<in> set (df_columns df))"
  shows "files (snd (save_splits env df nm w)) = files w"
proof -
  from assms
  have no: "(''id'' \<in> set (df_columns df) \<and> ''split'' \<in> set (df_columns df)) = False"
    by simp
  obtain r w1 where mk: "os_makedirs ''data/processed'' w = (r, w1)"
    by (cases "os_makedirs ''data/processed'' w")
  have "files w1 = files w"
    using os_makedirs_files [of "''data/processed''" w] mk by simp
  then show ?thesis
    using mk
    by (cases r) (simp_all add: save_splits_def Let_def get_splits_path_cases dirname_splits
        py_print_def no)
qed

lemma save_splits_error_path:
  assumes "\<not> (''id'' \<in> set (df_columns df) \<and> ''split'' \<in> set (df_columns df))"
    and "can_makedirs w ''data/processed''"
  shows "save_splits env df nm w =
           (Inr (), w\<lparr>dirs := dirs w \<union> set (path_prefixes ''data/processed''),
                       stdout := stdout w @ [SPLITS_ERROR]\<rparr>)"
proof -
  from assms(1)
  have no: "(''id'' \<in> set (df_columns df) \<and> ''split'' \<in> set (df_columns df)) = False"
    by simp
  show ?thesis
    using assms(2)
    by (simp add: save_splits_def Let_def get_splits_path_cases dirname_splits
        os_makedirs_ok py_print_def no)
qed

text \<open>
  C3, as the code has it. For a table without an \<open>id\<close> column or without a \<open>split\<close>
  column, \<open>save_splits\<close> writes no file: the files of the world are the same after the
  call, so no split file appears and one that was there keeps its bytes. Where the
  directory of the split path can be made, the call returns normally, prints the error
  line, and its only change to the file system is that this directory and its missing
  parents now exist.
\<close>

theorem save_splits_missing_column:
  assumes "''id'' \<notin> set (df_columns df) \<or> ''split'' \<notin> set (df_columns df)"
  shows "\<exists>p. get_splits_path (arg_or_default ''tmdb'' nm) = Inr p \<and>
             files (snd (save_splits env df nm w)) = files w \<and>
             (can_makedirs w (os_path_dirname p) \<longrightarrow>
                save_splits env df nm w =
                  (Inr (), w\<lparr>dirs := dirs w \<union> set (path_prefixes (os_path_dirname p)),
                              stdout := stdout w @ [SPLITS_ERROR]\<rparr>))"
proof -
  from assms have no: "\<not> (''id'' \<in> set (df_columns df) \<and> ''split'' \<in> set (df_columns df))"
    by blast
  show ?thesis
    using save_splits_files_unchanged [OF no] save_splits_error_path [OF no]
    by (simp add: get_splits_path_cases dirname_splits)
qed

theorem save_splits_missing_column_witness:
  "''split'' \<notin> set (df_columns [(''id'', [IntCell 7])]) \<and>
   can_makedirs empty_world ''data/processed'' \<and>
   save_splits demo_env [(''id'', [IntCell 7])] None empty_world =
     (Inr (), empty_world\<lparr>dirs := {''data'', ''data/processed''}, stdout := [SPLITS_ERROR]\<rparr>) \<and>
   files (snd (save_splits demo_env [(''id'', [IntCell 7])] None empty_world)) = Map.empty"
proof -
  have a: "''id'' \<notin> set (df_columns [(''id'', [IntCell 7])]) \<or>
           ''split'' \<notin> set (df_columns [(''id'', [IntCell 7])])"
    by (simp add: df_columns_def)
  have b: "can_makedirs empty_world ''data/processed''"
    by (simp add: can_makedirs_def prefixes_processed empty_world_def)
  show ?thesis
    using save_splits_missing_column [OF a, of None demo_env empty_world] b
    by (simp add: get_splits_path_cases arg_or_default_def os_path_dirname_def
        df_columns_def prefixes_processed empty_world_def)
qed

text \<open>
  C3 as stated fails: on a world with no directory at all, saving a table that has no
  \<open>split\<close> column returns normally and leaves \<open>data\<close> and \<open>data/processed\<close> behind.
\<close>

theorem save_splits_missing_column_counterexample:
  "''split'' \<notin> set (df_columns [(''id'', [IntCell 7])]) \<and>
   fst (save_splits demo_env [(''id'', [IntCell 7])] None empty_world) = Inr () \<and>
   dirs empty_world = {} \<and>
   dirs (snd (save_splits demo_env [(''id'', [IntCell 7])] None empty_world)) =
     {''data/processed'', ''data''}"
  by (simp add: save_splits_def Let_def get_splits_path_cases arg_or_default_def df_columns_def
      dirname_splits os_makedirs_def prefixes_processed empty_world_def py_print_def)


lemma save_splits_dirs_grow:
  "dirs (snd (os_makedirs ''data/processed'' w)) \<subseteq> dirs (snd (save_splits env df nm w))"
proof -
  obtain r w1 where mk: "os_makedirs ''data/processed'' w = (r, w1)"
    by (cases "os_makedirs ''data/processed'' w")
  show ?thesis
  proof (cases r)
    case (Inl e)
    with mk show ?thesis
      by (simp add: save_splits_def Let_def get_splits_path_cases dirname_splits)
  next
    case (Inr u)
    have "dirs (snd (save_splits env df nm w)) = dirs w1"
      using mk Inr
      by (simp add: save_splits_def Let_def get_splits_path_cases dirname_splits
          py_print_def to_csv_def write_file_def split: sum.splits list.splits)
    with mk show ?thesis by simp
  qed
qed

text \<open>
  C10. For every table, \<open>save_splits\<close> makes the directory of the split path before it
  looks at the columns: where that directory can be made it exists after the call, and
  on the path where a required column is absent the call still returns normally and
  writes no file.
\<close>

theorem save_splits_makedirs_first:
  "\<exists>p. get_splits_path (arg_or_default ''tmdb'' nm) = Inr p \<and>
       (can_makedirs w (os_path_dirname p) \<longrightarrow>
          os_path_dirname p \<in> dirs (snd (save_splits env df nm w)) \<and>
          (\<not> (''id'' \<in> set (df_columns df) \<and> ''split'' \<in> set (df_columns df)) \<longrightarrow>
             fst (save_splits env df nm w) = Inr () \<and>
             files (snd (save_splits env df nm w)) = files w))"
proof -
  have "''data/processed'' \<in> dirs (snd (save_splits env df nm w))"
    if "can_makedirs w ''data/processed''"
    using save_splits_dirs_grow [of w env df nm] os_makedirs_ok [OF that]
    by (auto simp add: prefixes_processed)
  moreover have "fst (save_splits env df nm w) = Inr ()"
    if "can_makedirs w ''data/processed''"
      and "\<not> (''id'' \<in> set (df_columns df) \<and> ''split'' \<in> set (df_columns df))"
    using save_splits_error_path [OF that(2) that(1)] by simp
  ultimately show ?thesis
    using save_splits_files_unchanged [of df env nm w]
    by (simp add: get_splits_path_cases dirname_splits)
qed

theorem save_splits_makedirs_first_witness:
  "can_makedirs empty_world ''data/processed'' \<and>
   ''data/processed'' \<notin> dirs empty_world \<and>
   ''id'' \<notin> set (df_columns [(''split'', [StrCell ''train''])]) \<and>
   ''data/processed'' \<in>
      dirs (snd (save_splits demo_env [(''split'', [StrCell ''train''])] (Some ''airbnb'')
                  empty_world)) \<and>
   fst (save_splits demo_env [(''split'', [StrCell ''train''])] (Some ''airbnb'') empty_world)
     = Inr () \<and>
   files (snd (save_splits demo_env [(''split'', [StrCell ''train''])] (Some ''airbnb'')
                  empty_world)) = Map.empty"
proof -
  have b: "can_makedirs empty_world ''data/processed''"
    by (simp add: can_makedirs_def prefixes_processed empty_world_def)
  show ?thesis
    using save_splits_makedirs_first
      [of "Some ''airbnb''" empty_world demo_env "[(''split'', [StrCell ''train''])]"] b
    by (simp add: get_splits_path_cases arg_or_default_def os_path_dirname_def
        df_columns_def empty_world_def)
qed


lemma filter_label_nonempty:
  "k \<in> set (df_columns df) \<Longrightarrow> filter (\<lambda>c. fst c = k) df \<noteq> []"
  by (auto simp add: df_columns_def filter_empty_conv)

lemma df_getitem_id_split:
  assumes "''id'' \<in> set (df_columns df)" and "''split'' \<in> set (df_columns df)"
  shows "df_getitem df [''id'', ''split''] =
           Inr (filter (\<lambda>c. fst c = ''id'') df @ filter (\<lambda>c. fst c = ''split'') df)"
proof -
  obtain c cs where a: "filter (\<lambda>c. fst c = ''id'') df = c # cs"
    using filter_label_nonempty [OF assms(1)] by (cases "filter (\<lambda>c. fst c = ''id'') df") auto
  obtain d ds where b: "filter (\<lambda>c. fst c = ''split'') df = d # ds"
    using filter_label_nonempty [OF assms(2)]
    by (cases "filter (\<lambda>c. fst c = ''split'') df") auto
  show ?thesis by (simp add: a b)
qed

lemma save_splits_success_path:
  assumes "df_getitem df [''id'', ''split''] = Inr proj"
    and "''id'' \<in> set (df_columns df)" and "''split'' \<in> set (df_columns df)"
    and "get_splits_path (arg_or_default ''tmdb'' nm) = Inr p"
    and "can_makedirs w ''data/processed''" and "p \<notin> dirs w"
  shows "save_splits env df nm w =
           (Inr (), w\<lparr>files := (files w)(p \<mapsto> pd_to_csv env proj),
                       dirs := dirs w \<union> set (path_prefixes ''data/processed''),
                       stdout := stdout w @ [check_mark @ '' Split assignments saved to '' @ p]\<rparr>)"
proof -
  have dn: "os_path_dirname p = ''data/processed''"
    using assms(4) by (auto simp add: get_splits_path_cases dirname_splits)
  have "p \<noteq> ''data''" "p \<noteq> ''data/processed''"
    using assms(4) by (auto simp add: get_splits_path_cases split: if_splits)
  then show ?thesis
    using assms dn
    by (simp add: save_splits_def Let_def os_makedirs_ok to_csv_def write_file_def
        py_print_def prefixes_processed)
qed

lemma projection_of_wf:
  assumes "''id'' \<in> set (df_columns df)" and "''split'' \<in> set (df_columns df)"
    and "wf_dataframe df"
  shows "\<exists>id_col split_col.
           filter (\<lambda>c. fst c = ''id'') df @ filter (\<lambda>c. fst c = ''split'') df =
             [(''id'', id_col), (''split'', split_col)] \<and>
           length id_col = df_nrows df \<and> length split_col = df_nrows df"
proof -
  from assms(1) obtain a where a: "(''id'', a) \<in> set df"
    by (auto simp add: df_columns_def)
  from assms(2) obtain b where b: "(''split'', b) \<in> set df"
    by (auto simp add: df_columns_def)
  from assms(3) have d: "distinct (map fst df)"
    and len: "\<forall>c \<in> set df. length (snd c) = df_nrows df"
    by (simp_all add: wf_dataframe_def df_columns_def list_all_iff)
  from len a b have "length a = df_nrows df" and "length b = df_nrows df"
    by auto
  then show ?thesis
    using filter_label [OF d a] filter_label [OF d b] by simp
qed

text \<open>
  C4, as the code has it. For every table with an \<open>id\<close> and a \<open>split\<close> column, \<open>save_splits\<close>
  writes at the split path the CSV of \<open>df[["id", "split"]]\<close>: the columns labelled \<open>id\<close>
  followed by the columns labelled \<open>split\<close>, each as it is in the input, every other
  column dropped, and no other file changes. The write needs a file system that lets the
  directory be made and has no directory at the split path. In a table with unique labels
  and columns of equal length the projection is exactly two columns, \<open>id\<close> and \<open>split\<close>,
  each with one cell per input row.
\<close>

theorem save_splits_writes_projection:
  assumes "''id'' \<in> set (df_columns df)" and "''split'' \<in> set (df_columns df)"
  shows "\<exists>p. get_splits_path (arg_or_default ''tmdb'' nm) = Inr p \<and>
           (can_makedirs w (os_path_dirname p) \<and> p \<notin> dirs w \<longrightarrow>
              save_splits env df nm w =
                (Inr (),
                 w\<lparr>files := (files w)(p \<mapsto>
                      pd_to_csv env (filter (\<lambda>c. fst c = ''id'') df @
                                     filter (\<lambda>c. fst c = ''split'') df)),
                    dirs := dirs w \<union> set (path_prefixes (os_path_dirname p)),
                    stdout := stdout w @
                      [check_mark @ '' Split assignments saved to '' @ p]\<rparr>)) \<and>
           (wf_dataframe df \<longrightarrow>
              (\<exists>id_col split_col.
                 filter (\<lambda>c. fst c = ''id'') df @ filter (\<lambda>c. fst c = ''split'') df =
                   [(''id'', id_col), (''split'', split_col)] \<and>
                 length id_col = df_nrows df \<and> length split_col = df_nrows df))"
proof -
  let ?proj = "filter (\<lambda>c. fst c = ''id'') df @ filter (\<lambda>c. fst c = ''split'') df"
  obtain p where p: "get_splits_path (arg_or_default ''tmdb'' nm) = Inr p"
    by (simp add: get_splits_path_cases)
  then have dn: "os_path_dirname p = ''data/processed''"
    by (auto simp add: get_splits_path_cases dirname_splits)
  note proj = df_getitem_id_split [OF assms]
  have "save_splits env df nm w =
          (Inr (), w\<lparr>files := (files w)(p \<mapsto> pd_to_csv env ?proj),
                      dirs := dirs w \<union> set (path_prefixes ''data/processed''),
                      stdout := stdout w @ [check_mark @ '' Split assignments saved to '' @ p]\<rparr>)"
    if "can_makedirs w ''data/processed''" and "p \<notin> dirs w"
    by (rule save_splits_success_path [OF proj assms p that])
  moreover have "\<exists>id_col split_col.
      ?proj = [(''id'', id_col), (''split'', split_col)] \<and>
      length id_col = df_nrows df \<and> length split_col = df_nrows df"
    if "wf_dataframe df"
    by (rule projection_of_wf [OF assms that])
  ultimately show ?thesis using p dn by simp
qed

theorem save_splits_writes_projection_witness:
  "wf_dataframe [(''id'', [IntCell 1, IntCell 2]), (''title'', [StrCell ''a'', StrCell ''b'']),
                 (''split'', [StrCell ''train'', StrCell ''test''])] \<and>
   can_makedirs empty_world ''data/processed'' \<and>
   fst (save_splits demo_env
          [(''id'', [IntCell 1, IntCell 2]), (''title'', [StrCell ''a'', StrCell ''b'']),
           (''split'', [StrCell ''train'', StrCell ''test''])]
          (Some ''airbnb'') empty_world) = Inr () \<and>
   files (snd (save_splits demo_env
          [(''id'', [IntCell 1, IntCell 2]), (''title'', [StrCell ''a'', StrCell ''b'']),
           (''split'', [StrCell ''train'', StrCell ''test''])]
          (Some ''airbnb'') empty_world)) ''data/processed/airbnb_embedded_splits.csv''
     = Some (pd_to_csv demo_env
          [(''id'', [IntCell 1, IntCell 2]), (''split'', [StrCell ''train'', StrCell ''test''])])"
proof -
  let ?df = "[(''id'', [IntCell 1, IntCell 2]), (''title'', [StrCell ''a'', StrCell ''b'']),
              (''split'', [StrCell ''train'', StrCell ''test''])]"
  have a: "''id'' \<in> set (df_columns ?df)" and b: "''split'' \<in> set (df_columns ?df)"
    by (simp_all add: df_columns_def)
  have c: "wf_dataframe ?df"
    by (simp add: wf_dataframe_def df_columns_def df_nrows_def)
  have m: "can_makedirs empty_world ''data/processed''"
    by (simp add: can_makedirs_def prefixes_processed empty_world_def)
  have e: "''data/processed/airbnb_embedded_splits.csv'' \<notin> dirs empty_world"
    by (simp add: empty_world_def)
  show ?thesis
    using save_splits_writes_projection [OF a b, of "Some ''airbnb''" empty_world demo_env]
      c m e
    by (simp add: get_splits_path_cases arg_or_default_def os_path_dirname_def)
qed

text \<open>
  C4 as stated fails on a table that carries a label twice: from the columns \<open>id\<close>, \<open>id\<close>,
  \<open>split\<close> the projection keeps all three, and the file written has three columns.
\<close>

theorem save_splits_repeated_label_counterexample:
  "''id'' \<in> set (df_columns
      [(''id'', [IntCell 1]), (''id'', [IntCell 2]), (''split'', [StrCell ''train''])]) \<and>
   ''split'' \<in> set (df_columns
      [(''id'', [IntCell 1]), (''id'', [IntCell 2]), (''split'', [StrCell ''train''])]) \<and>
   df_getitem [(''id'', [IntCell 1]), (''id'', [IntCell 2]), (''split'', [StrCell ''train''])]
      [''id'', ''split''] =
     Inr [(''id'', [IntCell 1]), (''id'', [IntCell 2]), (''split'', [StrCell ''train''])] \<and>
   fst (save_splits demo_env
      [(''id'', [IntCell 1]), (''id'', [IntCell 2]), (''split'', [StrCell ''train''])]
      None empty_world) = Inr () \<and>
   files (snd (save_splits demo_env
      [(''id'', [IntCell 1]), (''id'', [IntCell 2]), (''split'', [StrCell ''train''])]
      None empty_world)) ''data/processed/tmdb_embedded_splits.csv'' =
     Some (pd_to_csv demo_env
       [(''id'', [IntCell 1]), (''id'', [IntCell 2]), (''split'', [StrCell ''train''])])"
  by (simp add: save_splits_def Let_def get_splits_path_cases arg_or_default_def df_columns_def
      os_path_dirname_def os_makedirs_def prefixes_processed empty_world_def py_print_def
      to_csv_def write_file_def)

subsection \<open>Loading\<close>

text \<open>
  C5. For every dataset identifier (given or omitted) the processed path and the split
  path resolve, and when nothing exists at the path the loader returns \<open>None\<close> without
  raising. \<open>None\<close> is not a table: whenever a file is there and parses, even to a table
  with no rows, the loader returns \<open>Some\<close> of that table, which differs from \<open>None\<close>.
\<close>

theorem load_missing_returns_none:
  "\<exists>c path spath.
     get_dataset_config (arg_or_default ''tmdb'' nm) = Inr c \<and>
     config_path TypeError c = Inr path \<and>
     get_splits_path (arg_or_default ''tmdb'' nm) = Inr spath \<and>
     (\<not> os_path_exists w path \<longrightarrow> load_processed_data env nm w = Inr None) \<and>
     (\<not> os_path_exists w spath \<longrightarrow> load_splits env nm w = Inr None) \<and>
     (\<forall>w' t. os_path_exists w' path \<and> read_parquet env path w' = Inr t \<longrightarrow>
        load_processed_data env nm w' = Inr (Some t) \<and>
        load_processed_data env nm w' \<noteq> Inr None) \<and>
     (\<forall>w' t. os_path_exists w' spath \<and> read_csv env spath w' = Inr t \<longrightarrow>
        load_splits env nm w' = Inr (Some t) \<and> load_splits env nm w' \<noteq> Inr None)"
  by (simp add: load_processed_data_def load_splits_def Let_def get_dataset_config_cases
      config_path_cases get_splits_path_cases)

theorem load_missing_returns_none_witness:
  "\<not> os_path_exists empty_world ''data/processed/airbnb_embedded.parquet'' \<and>
   \<not> os_path_exists empty_world ''data/processed/airbnb_embedded_splits.csv'' \<and>
   load_processed_data demo_env (Some ''airbnb'') empty_world = Inr None \<and>
   load_splits demo_env (Some ''airbnb'') empty_world = Inr None \<and>
   os_path_exists cached_world ''data/processed/tmdb_embedded.parquet'' \<and>
   load_processed_data demo_env None cached_world = Inr (Some [(''x'', [])]) \<and>
   df_nrows [(''x'', [])] = 0 \<and>
   load_splits demo_env None cached_world = Inr (Some [(''y'', [])])"
proof -
  have a: "\<not> os_path_exists empty_world ''data/processed/airbnb_embedded.parquet''"
    and b: "\<not> os_path_exists empty_world ''data/processed/airbnb_embedded_splits.csv''"
    by (simp_all add: os_path_exists_def empty_world_def)
  have c: "os_path_exists cached_world ''data/processed/tmdb_embedded.parquet''"
    and d: "os_path_exists cached_world ''data/processed/tmdb_embedded_splits.csv''"
    by (simp_all add: os_path_exists_def cached_world_def)
  have e: "read_parquet demo_env ''data/processed/tmdb_embedded.parquet'' cached_world
             = Inr [(''x'', [])]"
    and f: "read_csv demo_env ''data/processed/tmdb_embedded_splits.csv'' cached_world
             = Inr [(''y'', [])]"
    by (simp_all add: read_parquet_def read_csv_def read_file_def cached_world_def demo_env_def)
  show ?thesis
    using load_missing_returns_none [of "Some ''airbnb''" empty_world demo_env]
      load_missing_returns_none [of None cached_world demo_env] a b c d e f
    by (simp add: arg_or_default_def get_dataset_config_cases config_path_def
        dict_getitem_def tmdb_config_def airbnb_config_def get_splits_path_cases df_nrows_def)
qed

text \<open>
  C9. Each of the four store operations with a dataset parameter, called without it,
  does what the call with \<open>tmdb\<close> does.
\<close>

theorem defaults_to_tmdb:
  "save_processed_data env df None w = save_processed_data env df (Some ''tmdb'') w \<and>
   load_processed_data env None w = load_processed_data env (Some ''tmdb'') w \<and>
   save_splits env df None w = save_splits env df (Some ''tmdb'') w \<and>
   load_splits env None w = load_splits env (Some ''tmdb'') w"
  by (simp add: save_processed_data_def load_processed_data_def save_splits_def
      load_splits_def arg_or_default_def)


subsection \<open>Raw acquisition\<close>

lemma load_tmdb_raw_cached:
  "os_path_exists w RAW_DATA_PATH \<Longrightarrow>
   load_tmdb_raw env w = (read_csv env RAW_DATA_PATH w, w)"
  by (simp add: load_tmdb_raw_def)

lemma load_tmdb_raw_absent_returns:
  "\<not> os_path_exists w RAW_DATA_PATH \<Longrightarrow> \<exists>df. fst (load_tmdb_raw env w) = Inr df"
  by (simp add: load_tmdb_raw_def Let_def split: prod.splits sum.splits)

lemma load_tmdb_raw_pull_fails:
  assumes "\<not> os_path_exists w RAW_DATA_PATH" and "load_dataset env HUB_DATASET = Inl e"
  shows "load_tmdb_raw env w =
           (Inr [],
            w\<lparr>stdout := stdout w @
                  [''Raw data not found locally.'',
                   ''Downloading TMDB 5000 dataset from Hugging Face...'',
                   ''Error details: '' @ exn_str env e],
               st_errors := st_errors w @ [''Failed to download dataset: '' @ exn_str env e],
               network := network w @ [HUB_DATASET]\<rparr>)"
  using assms
  by (simp add: load_tmdb_raw_def load_tmdb_raw_try_def Let_def py_print_def st_error_def)

lemma load_tmdb_raw_pull_succeeds:
  assumes "\<not> os_path_exists w RAW_DATA_PATH" and "load_dataset env HUB_DATASET = Inr df"
    and "can_makedirs w ''data/raw''"
  shows "load_tmdb_raw env w =
           (Inr df,
            w\<lparr>files := (files w)(RAW_DATA_PATH \<mapsto> pd_to_csv env df),
               dirs := dirs w \<union> {''data'', ''data/raw''},
               stdout := stdout w @
                  [''Raw data not found locally.'',
                   ''Downloading TMDB 5000 dataset from Hugging Face...'',
                   check_mark @ '' Dataset downloaded and cached to '' @ RAW_DATA_PATH],
               network := network w @ [HUB_DATASET]\<rparr>)"
proof -
  let ?w = "w\<lparr>stdout := stdout w @ [''Raw data not found locally.'',
                ''Downloading TMDB 5000 dataset from Hugging Face...''],
              network := network w @ [HUB_DATASET]\<rparr>"
  from assms(3) have mk: "can_makedirs ?w ''data/raw''"
    by (simp add: can_makedirs_def)
  have nd: "RAW_DATA_PATH \<notin> dirs w"
    using assms(1) by (simp add: os_path_exists_def)
  have ne: "RAW_DATA_PATH \<noteq> ''data''" "RAW_DATA_PATH \<noteq> ''data/raw''"
    by (simp_all add: RAW_DATA_PATH_def)
  show ?thesis
    using assms(1,2) nd ne
    by (simp add: load_tmdb_raw_def load_tmdb_raw_try_def Let_def py_print_def dirname_raw
        os_makedirs_ok [OF mk] prefixes_raw to_csv_def write_file_def)
qed

text \<open>
  C6, as the code has it. When the raw file exists, the result of \<open>load_tmdb_raw\<close> is what
  \<open>pd.read_csv\<close> makes of the local file, a table or the error it raises, and the world is
  untouched, so no request goes to the hub. When the file is absent the call always
  returns a table, and if the pull raises any exception it returns the empty table,
  having handed the failure to \<open>st.error\<close> and printed it, after a single request to
  the hub.
\<close>

theorem load_tmdb_raw_cache_first:
  "(os_path_exists w RAW_DATA_PATH \<longrightarrow>
      load_tmdb_raw env w = (read_csv env RAW_DATA_PATH w, w)) \<and>
   (\<not> os_path_exists w RAW_DATA_PATH \<longrightarrow> (\<exists>df. fst (load_tmdb_raw env w) = Inr df)) \<and>
   (\<forall>e. \<not> os_path_exists w RAW_DATA_PATH \<and> load_dataset env HUB_DATASET = Inl e \<longrightarrow>
      load_tmdb_raw env w =
        (Inr [],
         w\<lparr>stdout := stdout w @
               [''Raw data not found locally.'',
                ''Downloading TMDB 5000 dataset from Hugging Face...'',
                ''Error details: '' @ exn_str env e],
            st_errors := st_errors w @
               [''Failed to download dataset: '' @ exn_str env e],
            network := network w @ [HUB_DATASET]\<rparr>))"
  using load_tmdb_raw_cached [of w env] load_tmdb_raw_absent_returns [of w env]
    load_tmdb_raw_pull_fails [of w env]
  by blast

theorem load_tmdb_raw_cache_first_witness:
  "os_path_exists cached_world RAW_DATA_PATH \<and>
   load_tmdb_raw demo_env cached_world = (Inr [(''z'', [])], cached_world) \<and>
   \<not> os_path_exists empty_world RAW_DATA_PATH \<and>
   load_dataset demo_env HUB_DATASET = Inl (OtherException ''ConnectionError'') \<and>
   load_tmdb_raw demo_env empty_world =
     (Inr [],
      empty_world\<lparr>stdout :=
                    [''Raw data not found locally.'',
                     ''Downloading TMDB 5000 dataset from Hugging Face...'',
                     ''Error details: ConnectionError''],
                  st_errors := [''Failed to download dataset: ConnectionError''],
                  network := [''AiresPucrs/tmdb-5000-movies'']\<rparr>)"
proof -
  have a: "os_path_exists cached_world RAW_DATA_PATH"
    by (simp add: os_path_exists_def cached_world_def RAW_DATA_PATH_def)
  have b: "read_csv demo_env RAW_DATA_PATH cached_world = Inr [(''z'', [])]"
    by (simp add: read_csv_def read_file_def cached_world_def RAW_DATA_PATH_def demo_env_def)
  have c: "\<not> os_path_exists empty_world RAW_DATA_PATH"
    by (simp add: os_path_exists_def empty_world_def)
  have d: "load_dataset demo_env HUB_DATASET = Inl (OtherException ''ConnectionError'')"
    by (simp add: demo_env_def)
  have e: "exn_str demo_env (OtherException ''ConnectionError'') = ''ConnectionError''"
    by (simp add: demo_env_def)
  have f: "stdout empty_world = []" "st_errors empty_world = []" "network empty_world = []"
    by (simp_all add: empty_world_def)
  show ?thesis
    using load_tmdb_raw_cache_first [of cached_world demo_env]
      load_tmdb_raw_cache_first [of empty_world demo_env] a b c d e f
    by (simp add: HUB_DATASET_def)
qed

text \<open>
  C6 as stated fails: the call is not total. With a raw file that is there and empty,
  \<open>pd.read_csv\<close> raises, the read is outside the \<open>try\<close> block, and the exception reaches
  the caller.
\<close>

theorem load_tmdb_raw_empty_cache_counterexample:
  "os_path_exists empty_cache_world RAW_DATA_PATH \<and>
   load_tmdb_raw demo_env empty_cache_world =
     (Inl (OtherException ''EmptyDataError''), empty_cache_world)"
  by (simp add: load_tmdb_raw_def os_path_exists_def read_csv_def read_file_def
      empty_cache_world_def RAW_DATA_PATH_def demo_env_def)

subsection \<open>Saving and loading the processed table\<close>







end
